theory Spec2Isabelle
  imports Main
begin

section \<open>JavaScript values\<close>

text \<open>
  The importer is a JavaScript class (\<^verbatim>\<open>XLSXImporter\<close>, file \<^verbatim>\<open>XSLXImporter.js\<close>).
  Cell values, callback results and record identifiers are JavaScript primitives.
  Numbers are modelled as integers.
\<close>

datatype jsval = JUndefined | JNull | JBool bool | JNum int | JStr string

text \<open>
  What a \<^verbatim>\<open>throw\<close> throws and a \<^verbatim>\<open>catch\<close> captures: an error object of one of three
  constructors, with its message; an object that reaches itself through one of its own
  properties (an error whose \<^verbatim>\<open>cause\<close> is the error itself, say), with its message; or
  a primitive value, as in \<^verbatim>\<open>throw 0\<close>.
\<close>

datatype js_error =
  Error string | TypeError string | ReferenceError string | Circular string | Thrown jsval

text \<open>
  \<^verbatim>\<open>gs.nil(v)\<close> (platform function): true for \<^verbatim>\<open>null\<close>, \<^verbatim>\<open>undefined\<close> and the empty string.
\<close>

fun gs_nil :: "jsval \<Rightarrow> bool" where
  "gs_nil JUndefined = True"
| "gs_nil JNull = True"
| "gs_nil (JStr s) = (s = [])"
| "gs_nil (JBool b) = False"
| "gs_nil (JNum n) = False"

text \<open>JavaScript truthiness, as used by \<^verbatim>\<open>!v\<close> and \<^verbatim>\<open>v || d\<close>.\<close>

fun truthy :: "jsval \<Rightarrow> bool" where
  "truthy JUndefined = False"
| "truthy JNull = False"
| "truthy (JBool b) = b"
| "truthy (JNum n) = (n \<noteq> 0)"
| "truthy (JStr s) = (s \<noteq> [])"

text \<open>\<^verbatim>\<open>v || null\<close>\<close>

definition or_null :: "jsval \<Rightarrow> jsval" where
  "or_null v = (if truthy v then v else JNull)"

text \<open>
  Truthiness of a thrown value: every object is truthy, a primitive as above. An object
  with a circular reference is what \<^verbatim>\<open>JSON.stringify\<close> refuses.
\<close>

fun thrown_truthy :: "js_error \<Rightarrow> bool" where
  "thrown_truthy (Thrown v) = truthy v"
| "thrown_truthy (Error m) = True"
| "thrown_truthy (TypeError m) = True"
| "thrown_truthy (ReferenceError m) = True"
| "thrown_truthy (Circular m) = True"

fun circular :: "js_error \<Rightarrow> bool" where
  "circular (Circular m) = True"
| "circular (Error m) = False"
| "circular (TypeError m) = False"
| "circular (ReferenceError m) = False"
| "circular (Thrown v) = False"

subsection \<open>Objects used as rows\<close>

text \<open>
  A row is a plain object: its keys in insertion order (the order of \<^verbatim>\<open>Object.keys\<close>
  for keys that are not array indices), each with one value. Assigning to a key that is
  present replaces the value in place; assigning to a new key appends it.
\<close>

type_synonym row = "(string \<times> jsval) list"

definition obj_keys :: "row \<Rightarrow> string list" where
  "obj_keys obj = map fst obj"

definition obj_get :: "row \<Rightarrow> string \<Rightarrow> jsval" where
  "obj_get obj key = (case map_of obj key of None \<Rightarrow> JUndefined | Some v \<Rightarrow> v)"

fun obj_set :: "row \<Rightarrow> string \<Rightarrow> jsval \<Rightarrow> row" where
  "obj_set [] key v = [(key, v)]"
| "obj_set ((k, x) # obj) key v =
     (if k = key then (k, v) # obj else (k, x) # obj_set obj key v)"

section \<open>Result codes and result objects\<close>

text \<open>\<^verbatim>\<open>XLSXImporter.STATES\<close> and \<^verbatim>\<open>XLSXImporter.RCODES\<close>.\<close>

datatype STATES = STATE_SUCCESS | PARSING_ERROR | MISSING_REQUIRED_HEADER

datatype RCODES = SUCCESS | SKIPPED_EMPTY | SKIPPED_EVENT | SKIPPED_VALIDATION | ERROR

fun RCODES_value :: "RCODES \<Rightarrow> nat" where
  "RCODES_value SUCCESS = 0"
| "RCODES_value SKIPPED_EMPTY = 1"
| "RCODES_value SKIPPED_EVENT = 2"
| "RCODES_value SKIPPED_VALIDATION = 3"
| "RCODES_value ERROR = 4"

fun MESSAGES :: "RCODES \<Rightarrow> string" where
  "MESSAGES SUCCESS = ''Record imported correctly''"
| "MESSAGES SKIPPED_EMPTY = ''Record skipped because empty''"
| "MESSAGES SKIPPED_EVENT = ''Record skipped after result of event: ''"
| "MESSAGES SKIPPED_VALIDATION = ''Record skipped after validation failed: ''"
| "MESSAGES ERROR = ''Record skipped due to unexpected error''"

text \<open>
  \<^verbatim>\<open>RowResult\<close>: the fields \<^verbatim>\<open>row\<close>, \<^verbatim>\<open>code\<close>, \<^verbatim>\<open>message\<close>, \<^verbatim>\<open>target\<close>,
  \<^verbatim>\<open>error\<close>. A message or error of \<open>None\<close> is \<^verbatim>\<open>null\<close>/\<^verbatim>\<open>undefined\<close>.
\<close>

record RowResult =
  r_row :: int
  r_code :: RCODES
  r_message :: "string option"
  r_target :: jsval
  r_error :: "js_error option"

text \<open>
  \<^verbatim>\<open>_createRowResult(index, code, info, target, error)\<close>. The argument \<open>info\<close> is a
  string, or \<open>None\<close> when the caller passes \<^verbatim>\<open>null\<close> or leaves it out; \<open>target\<close> is
  \<^verbatim>\<open>undefined\<close> when left out; \<open>error\<close> is the value the \<^verbatim>\<open>catch\<close> captured, or
  \<open>None\<close> when left out. The message is \<open>info\<close> for a failed validation and
  otherwise the code's message, to which \<open>info\<close> is appended when the code is
  \<^verbatim>\<open>SKIPPED_EVENT\<close> and \<open>info\<close> is not nil. The error field is \<^verbatim>\<open>error || null\<close>: the
  captured value when it is truthy, \<^verbatim>\<open>null\<close> when it is falsy or left out.
\<close>

definition createRowResult ::
  "int \<Rightarrow> RCODES \<Rightarrow> string option \<Rightarrow> jsval \<Rightarrow> js_error option \<Rightarrow> RowResult" where
  "createRowResult index code info target error =
     (let isValidationFailed = (SKIPPED_VALIDATION = code);
          codeNeedAdditionalInfo = (code \<in> set [SKIPPED_EVENT]);
          message =
            (if isValidationFailed then info
             else (case info of
                     None \<Rightarrow> Some (MESSAGES code)
                   | Some additional \<Rightarrow>
                       if codeNeedAdditionalInfo \<and> additional \<noteq> []
                       then Some (MESSAGES code @ additional)
                       else Some (MESSAGES code)))
      in \<lparr> r_row = index, r_code = code, r_message = message,
           r_target = or_null target,
           r_error = (case error of
                        None \<Rightarrow> None
                      | Some ex \<Rightarrow> if thrown_truthy ex then Some ex else None) \<rparr>)"

text \<open>
  \<^verbatim>\<open>JSON.stringify(obj)\<close> of a row result, which \<^verbatim>\<open>import\<close> evaluates for every row as
  the argument of a \<^verbatim>\<open>_trace\<close> call, whether the debug mode is on or off. The row, code,
  message and target are primitives; the call throws a \<^verbatim>\<open>TypeError\<close> when the error
  field holds an object with a circular reference, and otherwise yields a text that only
  the trace uses.
\<close>

definition JSON_stringify :: "RowResult \<Rightarrow> js_error + unit" where
  "JSON_stringify obj =
     (case r_error obj of
        None \<Rightarrow> Inr ()
      | Some ex \<Rightarrow>
          if circular ex then Inl (TypeError ''Converting circular structure to JSON'')
          else Inr ())"

section \<open>Normalization\<close>

text \<open>
  \<^verbatim>\<open>_normalize(value)\<close>: trim, lower-case, delete tab, line feed and carriage return,
  then replace each run of white space by one space. Strings are byte strings here, so
  white space and letters are the ASCII ones.
\<close>

definition is_space :: "char \<Rightarrow> bool" where
  "is_space c = (c = CHR '' '' \<or> c = CHR 0x09 \<or> c = CHR 0x0A \<or> c = CHR 0x0B
     \<or> c = CHR 0x0C \<or> c = CHR 0x0D)"

definition trim :: "string \<Rightarrow> string" where
  "trim s = rev (dropWhile is_space (rev (dropWhile is_space s)))"

definition lower_char :: "char \<Rightarrow> char" where
  "lower_char c =
     (let n = (of_char c :: nat) in if 65 \<le> n \<and> n \<le> 90 then char_of (n + 32) else c)"

definition toLowerCase :: "string \<Rightarrow> string" where
  "toLowerCase s = map lower_char s"

fun collapse_spaces :: "bool \<Rightarrow> string \<Rightarrow> string" where
  "collapse_spaces in_run [] = []"
| "collapse_spaces in_run (c # cs) =
     (if is_space c
      then (if in_run then collapse_spaces True cs else CHR '' '' # collapse_spaces True cs)
      else c # collapse_spaces False cs)"

definition normalize :: "string \<Rightarrow> string" where
  "normalize v =
     collapse_spaces False
       (filter (\<lambda>c. c \<noteq> CHR 0x09 \<and> c \<noteq> CHR 0x0A \<and> c \<noteq> CHR 0x0D)
          (toLowerCase (trim v)))"

section \<open>The importer's configuration\<close>

text \<open>
  A transform, a validation method and an event callback are caller functions. Each is
  modelled by what it returns or throws for the arguments it is called with.
\<close>

type_synonym transform = "jsval \<Rightarrow> js_error + jsval"

record validation =
  v_method :: "row \<Rightarrow> string \<Rightarrow> js_error + jsval"
  v_message :: string

text \<open>The \<^verbatim>\<open>data\<close> object handed to a callback: each key is present or left out.\<close>

record event_data =
  d_row :: "row option"
  d_index :: "int option"
  d_sys_id :: "jsval option"

type_synonym callback = "event_data \<Rightarrow> js_error + jsval"

text \<open>
  The instance fields \<^verbatim>\<open>_virtual\<close>, \<^verbatim>\<open>_sloppy\<close>, \<^verbatim>\<open>_mappings\<close>, \<^verbatim>\<open>_transforms\<close>,
  \<^verbatim>\<open>_validations\<close>, \<^verbatim>\<open>_coalescing\<close>, \<^verbatim>\<open>_ignored\<close>, \<^verbatim>\<open>_required\<close> and
  \<^verbatim>\<open>_events\<close>.
\<close>

record config =
  virtual :: bool
  sloppy :: bool
  mappings :: "string \<rightharpoonup> string"
  transforms :: "string \<rightharpoonup> transform list"
  validations :: "string \<rightharpoonup> validation list"
  coalescing :: "string list"
  ignored :: "string list"
  required :: "string list"
  events :: "string \<rightharpoonup> callback"

text \<open>The fields as \<^verbatim>\<open>initialize\<close> leaves them, before the default mapping.\<close>

definition initial_config :: config where
  "initial_config =
     \<lparr> virtual = False, sloppy = False, mappings = Map.empty, transforms = Map.empty,
       validations = Map.empty, coalescing = [], ignored = [], required = [],
       events = Map.empty \<rparr>"

subsection \<open>ignore and require\<close>

text \<open>
  A configuration call returns the error it throws, if any, and the configuration as
  the call leaves it. In both methods the message of the conflict error reads the
  variable \<^verbatim>\<open>_field\<close>, which neither method declares: building the message throws a
  \<^verbatim>\<open>ReferenceError\<close> before the \<^verbatim>\<open>Error\<close> is constructed.
\<close>

definition ignore :: "config \<Rightarrow> jsval \<Rightarrow> js_error option \<times> config" where
  "ignore cfg header =
     (case header of
        JStr h \<Rightarrow>
          if gs_nil header
          then (Some (Error ''Invalid parameter: the 'header' parameter is empty or not a string''), cfg)
          else
            (let header' = normalize h in
             if header' \<in> set (required cfg)
             then (Some (ReferenceError ''_field is not defined''), cfg)
             else (None,
                   cfg\<lparr> ignored := (if header' \<notin> set (ignored cfg)
                                      then ignored cfg @ [header'] else ignored cfg) \<rparr>))
      | _ \<Rightarrow> (Some (Error ''Invalid parameter: the 'header' parameter is empty or not a string''), cfg))"

definition require :: "config \<Rightarrow> jsval \<Rightarrow> js_error option \<times> config" where
  "require cfg header =
     (case header of
        JStr h \<Rightarrow>
          if gs_nil header
          then (Some (Error ''Invalid parameter: the 'header' parameter is empty or not a string''), cfg)
          else
            (let header' = normalize h in
             if header' \<in> set (ignored cfg)
             then (Some (ReferenceError ''_field is not defined''), cfg)
             else (None,
                   cfg\<lparr> required := (if header' \<notin> set (required cfg)
                                       then required cfg @ [header'] else required cfg) \<rparr>))
      | _ \<Rightarrow> (Some (Error ''Invalid parameter: the 'header' parameter is empty or not a string''), cfg))"

section \<open>The record store and the spreadsheet parser\<close>

text \<open>
  The record store (\<^verbatim>\<open>GlideRecord\<close>) is platform code, so the importer's functions take
  its operations as a parameter: a query by conjoined equality conditions that yields the
  \<^verbatim>\<open>sys_id\<close> of each matching record in the store's order; \<^verbatim>\<open>newRecord\<close>, the
  \<^verbatim>\<open>setValue\<close> calls and \<^verbatim>\<open>update\<close> as one create; \<^verbatim>\<open>get\<close>, the \<^verbatim>\<open>setValue\<close>
  calls and \<^verbatim>\<open>update\<close> as one update. Each may throw. The world is the store together
  with the calls made on it so far.
\<close>

datatype store_call = Query "(string \<times> jsval) list" | Create row | Update jsval row

record 's store_ops =
  st_query :: "'s \<Rightarrow> (string \<times> jsval) list \<Rightarrow> js_error + string list"
  st_create :: "'s \<Rightarrow> row \<Rightarrow> (js_error + jsval) \<times> 's"
  st_update :: "'s \<Rightarrow> jsval \<Rightarrow> row \<Rightarrow> (js_error + jsval) \<times> 's"

record 's world =
  store :: 's
  calls :: "store_call list"

fun is_write :: "store_call \<Rightarrow> bool" where
  "is_write (Query conds) = False"
| "is_write (Create data) = True"
| "is_write (Update sys_id data) = True"

text \<open>
  What the parser (\<^verbatim>\<open>sn_impex.GlideExcelParser\<close>, platform code) finds in an attachment:
  whether \<^verbatim>\<open>parse\<close> succeeds, its error message, the column headers and the rows that
  \<^verbatim>\<open>next\<close>/\<^verbatim>\<open>getRow\<close> deliver in order. The parser object records whether \<^verbatim>\<open>close\<close>
  has been called on it.
\<close>

record xlsx_file =
  parse_success :: bool
  error_message :: string
  column_headers :: "string list"
  file_rows :: "row list"

record parser =
  p_file :: xlsx_file
  p_closed :: bool

definition new_parser :: "xlsx_file \<Rightarrow> parser" where
  "new_parser file = \<lparr> p_file = file, p_closed = False \<rparr>"

definition parser_close :: "parser \<Rightarrow> parser" where
  "parser_close p = p\<lparr> p_closed := True \<rparr>"

section \<open>Row helpers\<close>

text \<open>\<^verbatim>\<open>_normalizeRowHeaders(row)\<close>\<close>

fun normalizeRowHeaders_loop :: "row \<Rightarrow> string list \<Rightarrow> row \<Rightarrow> row" where
  "normalizeRowHeaders_loop row [] obj = obj"
| "normalizeRowHeaders_loop row (key # keys) obj =
     normalizeRowHeaders_loop row keys (obj_set obj (normalize key) (obj_get row key))"

definition normalizeRowHeaders :: "row \<Rightarrow> row" where
  "normalizeRowHeaders row = normalizeRowHeaders_loop row (obj_keys row) []"

text \<open>\<^verbatim>\<open>_isEmptyRow(row)\<close>\<close>

definition isEmptyRow :: "row \<Rightarrow> bool" where
  "isEmptyRow row = (length (filter (\<lambda>key. \<not> gs_nil (obj_get row key)) (obj_keys row)) = 0)"

text \<open>\<^verbatim>\<open>_ignoreRowHeaders(row)\<close>\<close>

fun ignoreRowHeaders_loop :: "config \<Rightarrow> row \<Rightarrow> string list \<Rightarrow> row \<Rightarrow> row" where
  "ignoreRowHeaders_loop cfg row [] data = data"
| "ignoreRowHeaders_loop cfg row (header # headers) data =
     (if header \<in> set (ignored cfg) then ignoreRowHeaders_loop cfg row headers data
      else ignoreRowHeaders_loop cfg row headers (obj_set data header (obj_get row header)))"

definition ignoreRowHeaders :: "config \<Rightarrow> row \<Rightarrow> row" where
  "ignoreRowHeaders cfg row = ignoreRowHeaders_loop cfg row (obj_keys row) []"

text \<open>
  \<^verbatim>\<open>_mapHeadersToFields(row)\<close>: a header with no mapping, or mapped to the empty string
  (\<^verbatim>\<open>!field\<close>), is left out.
\<close>

fun mapHeadersToFields_loop :: "config \<Rightarrow> row \<Rightarrow> string list \<Rightarrow> row \<Rightarrow> row" where
  "mapHeadersToFields_loop cfg row [] data = data"
| "mapHeadersToFields_loop cfg row (header # headers) data =
     (case mappings cfg (normalize header) of
        None \<Rightarrow> mapHeadersToFields_loop cfg row headers data
      | Some field \<Rightarrow>
          if field = [] then mapHeadersToFields_loop cfg row headers data
          else mapHeadersToFields_loop cfg row headers (obj_set data field (obj_get row header)))"

definition mapHeadersToFields :: "config \<Rightarrow> row \<Rightarrow> row" where
  "mapHeadersToFields cfg row = mapHeadersToFields_loop cfg row (obj_keys row) []"

text \<open>
  \<^verbatim>\<open>_transformRowValues(row)\<close>: the \<^verbatim>\<open>forEach\<close> over a field's transforms, then the
  loop over the fields. A transform that throws ends the function with that error.
\<close>

fun apply_transforms :: "transform list \<Rightarrow> jsval \<Rightarrow> js_error + jsval" where
  "apply_transforms [] v = Inr v"
| "apply_transforms (f # fs) v =
     (case f v of Inl ex \<Rightarrow> Inl ex | Inr v' \<Rightarrow> apply_transforms fs v')"

fun transformRowValues_loop ::
  "config \<Rightarrow> row \<Rightarrow> string list \<Rightarrow> row \<Rightarrow> js_error + row" where
  "transformRowValues_loop cfg row [] data = Inr data"
| "transformRowValues_loop cfg row (field # fields_left) data =
     (case (case transforms cfg field of
              None \<Rightarrow> Inr (obj_get row field)
            | Some transformations \<Rightarrow> apply_transforms transformations (obj_get row field)) of
        Inl ex \<Rightarrow> Inl ex
      | Inr v \<Rightarrow> transformRowValues_loop cfg row fields_left (obj_set data field v))"

definition transformRowValues :: "config \<Rightarrow> row \<Rightarrow> js_error + row" where
  "transformRowValues cfg row = transformRowValues_loop cfg row (obj_keys row) []"

text \<open>
  \<^verbatim>\<open>_validateRowValues(row)\<close>: the inner loop over one field's validation objects and
  the outer loop over the fields. The result is \<open>None\<close> for \<^verbatim>\<open>null\<close> (the row is valid),
  or the message and field of the validation that failed.
\<close>

record validation_failure =
  f_message :: string
  f_field :: string

fun run_validations ::
  "validation list \<Rightarrow> row \<Rightarrow> string \<Rightarrow> js_error + validation_failure option" where
  "run_validations [] row field = Inr None"
| "run_validations (v # farray) row field =
     (case v_method v row field of
        Inl ex \<Rightarrow> Inl ex
      | Inr valid \<Rightarrow>
          if \<not> truthy valid
          then Inr (Some \<lparr> f_message = v_message v, f_field = field \<rparr>)
          else run_validations farray row field)"

fun validateRowValues_loop ::
  "config \<Rightarrow> row \<Rightarrow> string list \<Rightarrow> js_error + validation_failure option" where
  "validateRowValues_loop cfg row [] = Inr None"
| "validateRowValues_loop cfg row (field # fields_left) =
     (case validations cfg field of
        None \<Rightarrow> validateRowValues_loop cfg row fields_left
      | Some farray \<Rightarrow>
          (case run_validations farray row field of
             Inl ex \<Rightarrow> Inl ex
           | Inr (Some obj) \<Rightarrow> Inr (Some obj)
           | Inr None \<Rightarrow> validateRowValues_loop cfg row fields_left))"

definition validateRowValues :: "config \<Rightarrow> row \<Rightarrow> js_error + validation_failure option" where
  "validateRowValues cfg row = validateRowValues_loop cfg row (obj_keys row)"

section \<open>Events\<close>

text \<open>
  \<^verbatim>\<open>_triggerEvent(event, row, index, sys_id)\<close>: \<^verbatim>\<open>null\<close> when no callback is registered
  under the normalized event name, otherwise what the callback returns or throws.
\<close>

definition triggerEvent ::
  "config \<Rightarrow> string \<Rightarrow> row option \<Rightarrow> int option \<Rightarrow> jsval \<Rightarrow> js_error + jsval" where
  "triggerEvent cfg event row index sys_id =
     (case events cfg (normalize event) of
        None \<Rightarrow> Inr JNull
      | Some f \<Rightarrow>
          f \<lparr> d_row = row, d_index = index,
              d_sys_id = (if gs_nil sys_id then None else Some sys_id) \<rparr>)"

section \<open>Coalescence and persistence\<close>

text \<open>
  \<^verbatim>\<open>_getCoalescenceRecord(data)\<close>: the loop that adds one condition per coalescing field
  whose value in the row is not nil, the query, and the loop over the records found.
\<close>

fun coalescence_conditions :: "string list \<Rightarrow> row \<Rightarrow> (string \<times> jsval) list" where
  "coalescence_conditions [] data = []"
| "coalescence_conditions (field # fields_left) data =
     (if gs_nil (obj_get data field) then coalescence_conditions fields_left data
      else (field, obj_get data field) # coalescence_conditions fields_left data)"

fun first_accepted :: "config \<Rightarrow> string list \<Rightarrow> js_error + jsval" where
  "first_accepted cfg [] = Inr JNull"
| "first_accepted cfg (sys_id # found) =
     (case triggerEvent cfg ''onCoalesce'' None None (JStr sys_id) of
        Inl ex \<Rightarrow> Inl ex
      | Inr valid \<Rightarrow>
          if gs_nil valid \<or> truthy valid then Inr (JStr sys_id)
          else first_accepted cfg found)"

definition getCoalescenceRecord ::
  "config \<Rightarrow> 's store_ops \<Rightarrow> 's world \<Rightarrow> row \<Rightarrow> (js_error + jsval) \<times> 's world" where
  "getCoalescenceRecord cfg ops w data =
     (if coalescing cfg = [] then (Inr JNull, w)
      else
        (let conds = coalescence_conditions (coalescing cfg) data;
             w' = w\<lparr> calls := calls w @ [Query conds] \<rparr>
         in case st_query ops (store w) conds of
              Inl ex \<Rightarrow> (Inl ex, w')
            | Inr found \<Rightarrow> (first_accepted cfg found, w')))"

text \<open>\<^verbatim>\<open>_createUpdateRecord(data)\<close>\<close>

definition createUpdateRecord ::
  "config \<Rightarrow> 's store_ops \<Rightarrow> 's world \<Rightarrow> row \<Rightarrow> (js_error + jsval) \<times> 's world" where
  "createUpdateRecord cfg ops w data =
     (case getCoalescenceRecord cfg ops w data of
        (Inl ex, w') \<Rightarrow> (Inl ex, w')
      | (Inr sys_id, w') \<Rightarrow>
          if gs_nil sys_id
          then (case st_create ops (store w') data of
                  (res, s) \<Rightarrow> (res, \<lparr> store = s, calls = calls w' @ [Create data] \<rparr>))
          else (case st_update ops (store w') sys_id data of
                  (res, s) \<Rightarrow> (res, \<lparr> store = s, calls = calls w' @ [Update sys_id data] \<rparr>)))"

section \<open>Processing one row\<close>

text \<open>
  \<^verbatim>\<open>_parseRow(parser, index)\<close>. The body of its \<^verbatim>\<open>try\<close> block is a sequence of stages,
  each of which returns the row's result, throws, or goes on to the next stage. The
  stages are written from the last to the first, each naming the one it goes on to.
\<close>

text \<open>Persist unless virtual, \<^verbatim>\<open>onRowImported\<close>, and the success result.\<close>

definition parseRow_import ::
  "config \<Rightarrow> 's store_ops \<Rightarrow> 's world \<Rightarrow> row \<Rightarrow> int \<Rightarrow> (js_error + RowResult) \<times> 's world" where
  "parseRow_import cfg ops w row index =
     (if \<not> virtual cfg
      then
        (case createUpdateRecord cfg ops w row of
           (Inl ex, w') \<Rightarrow> (Inl ex, w')
         | (Inr sys_id, w') \<Rightarrow>
             (case triggerEvent cfg ''onRowImported'' (Some row) (Some index) sys_id of
                Inl ex \<Rightarrow> (Inl ex, w')
              | Inr valid \<Rightarrow>
                  if \<not> gs_nil valid \<and> \<not> truthy valid
                  then (Inr (createRowResult index SKIPPED_EVENT (Some ''onRowImported'')
                               JUndefined None), w')
                  else (Inr (createRowResult index SUCCESS None
                               (if virtual cfg then JNull else sys_id) None), w')))
      else (Inr (createRowResult index SUCCESS None
                   (if virtual cfg then JNull else JUndefined) None), w))"

text \<open>The transformations and \<^verbatim>\<open>onRowTransformed\<close>.\<close>

definition parseRow_transform ::
  "config \<Rightarrow> 's store_ops \<Rightarrow> 's world \<Rightarrow> row \<Rightarrow> int \<Rightarrow> (js_error + RowResult) \<times> 's world" where
  "parseRow_transform cfg ops w row index =
     (case transformRowValues cfg row of
        Inl ex \<Rightarrow> (Inl ex, w)
      | Inr row' \<Rightarrow>
          (case triggerEvent cfg ''onRowTransformed'' (Some row') (Some index) JUndefined of
             Inl ex \<Rightarrow> (Inl ex, w)
           | Inr valid \<Rightarrow>
               if \<not> gs_nil valid \<and> \<not> truthy valid
               then (Inr (createRowResult index SKIPPED_EVENT (Some ''onRowTransformed'')
                            JUndefined None), w)
               else parseRow_import cfg ops w row' index))"

text \<open>\<^verbatim>\<open>onRowValidated\<close>\<close>

definition parseRow_validated ::
  "config \<Rightarrow> 's store_ops \<Rightarrow> 's world \<Rightarrow> row \<Rightarrow> int \<Rightarrow> (js_error + RowResult) \<times> 's world" where
  "parseRow_validated cfg ops w row index =
     (case triggerEvent cfg ''onRowValidated'' (Some row) (Some index) JUndefined of
        Inl ex \<Rightarrow> (Inl ex, w)
      | Inr valid \<Rightarrow>
          if \<not> gs_nil valid \<and> \<not> truthy valid
          then (Inr (createRowResult index SKIPPED_EVENT (Some ''onRowValidated'')
                       JUndefined None), w)
          else parseRow_transform cfg ops w row index)"

text \<open>The validation of the row.\<close>

definition parseRow_validate ::
  "config \<Rightarrow> 's store_ops \<Rightarrow> 's world \<Rightarrow> row \<Rightarrow> int \<Rightarrow> (js_error + RowResult) \<times> 's world" where
  "parseRow_validate cfg ops w row index =
     (case validateRowValues cfg row of
        Inl ex \<Rightarrow> (Inl ex, w)
      | Inr (Some result) \<Rightarrow>
          (Inr (createRowResult index SKIPPED_VALIDATION (Some (f_message result))
                  (JStr (f_field result)) None), w)
      | Inr None \<Rightarrow> parseRow_validated cfg ops w row index)"

text \<open>\<^verbatim>\<open>onRowValidating\<close>\<close>

definition parseRow_validating ::
  "config \<Rightarrow> 's store_ops \<Rightarrow> 's world \<Rightarrow> row \<Rightarrow> int \<Rightarrow> (js_error + RowResult) \<times> 's world" where
  "parseRow_validating cfg ops w row index =
     (case triggerEvent cfg ''onRowValidating'' (Some row) (Some index) JUndefined of
        Inl ex \<Rightarrow> (Inl ex, w)
      | Inr valid \<Rightarrow>
          if \<not> gs_nil valid \<and> \<not> truthy valid
          then (Inr (createRowResult index SKIPPED_EVENT (Some ''onRowValidating'')
                       JUndefined None), w)
          else parseRow_validate cfg ops w row index)"

text \<open>Ignored headers, the mapping, and the choice on sloppy mode.\<close>

definition parseRow_map ::
  "config \<Rightarrow> 's store_ops \<Rightarrow> 's world \<Rightarrow> row \<Rightarrow> int \<Rightarrow> (js_error + RowResult) \<times> 's world" where
  "parseRow_map cfg ops w row index =
     (let row' = mapHeadersToFields cfg (ignoreRowHeaders cfg row)
      in if \<not> sloppy cfg then parseRow_validating cfg ops w row' index
         else parseRow_transform cfg ops w row' index)"

text \<open>The start of the \<^verbatim>\<open>try\<close> block: the row read, the empty check and \<^verbatim>\<open>onRowRead\<close>.\<close>

definition parseRow_try ::
  "config \<Rightarrow> 's store_ops \<Rightarrow> 's world \<Rightarrow> row \<Rightarrow> int \<Rightarrow> (js_error + RowResult) \<times> 's world" where
  "parseRow_try cfg ops w raw index =
     (let row = normalizeRowHeaders raw
      in if isEmptyRow row
         then (Inr (createRowResult index SKIPPED_EMPTY None JUndefined None), w)
         else
           (case triggerEvent cfg ''onRowRead'' (Some row) (Some index) JUndefined of
              Inl ex \<Rightarrow> (Inl ex, w)
            | Inr valid \<Rightarrow>
                if \<not> gs_nil valid \<and> \<not> truthy valid
                then (Inr (createRowResult index SKIPPED_EVENT (Some ''onRowRead'')
                             JUndefined None), w)
                else parseRow_map cfg ops w row index))"

text \<open>The \<^verbatim>\<open>try\<close> block with its \<^verbatim>\<open>catch\<close>.\<close>

definition parseRow ::
  "config \<Rightarrow> 's store_ops \<Rightarrow> 's world \<Rightarrow> row \<Rightarrow> int \<Rightarrow> RowResult \<times> 's world" where
  "parseRow cfg ops w raw index =
     (case parseRow_try cfg ops w raw index of
        (Inl ex, w') \<Rightarrow> (createRowResult index ERROR None JNull (Some ex), w')
      | (Inr obj, w') \<Rightarrow> (obj, w'))"

section \<open>The import\<close>

text \<open>\<^verbatim>\<open>_validateHeaders(headers)\<close>\<close>

record headers_result =
  h_success :: bool
  h_missing :: "string list"

fun validateHeaders_loop :: "string list \<Rightarrow> string list \<Rightarrow> headers_result \<Rightarrow> headers_result" where
  "validateHeaders_loop headers' [] result = result"
| "validateHeaders_loop headers' (req # reqs) result =
     (if \<not> (req \<notin> set headers') then validateHeaders_loop headers' reqs result
      else validateHeaders_loop headers' reqs
             (result\<lparr> h_success := False, h_missing := h_missing result @ [req] \<rparr>))"

definition validateHeaders :: "config \<Rightarrow> string list \<Rightarrow> headers_result" where
  "validateHeaders cfg headers =
     validateHeaders_loop (map normalize headers) (required cfg)
       \<lparr> h_success = True, h_missing = [] \<rparr>"

text \<open>
  \<^verbatim>\<open>ImportResult\<close> and \<^verbatim>\<open>_createReturnValue\<close>. The elapsed time is left out. The data is
  \<^verbatim>\<open>null\<close>, the list of missing headers, or the list of row results. A caller that leaves
  \<open>data\<close> or \<open>rows\<close> out gets \<^verbatim>\<open>null\<close> and \<^verbatim>\<open>0\<close>, which is what the callers here pass.
  The function ends with a \<^verbatim>\<open>_trace\<close> call whose argument is \<^verbatim>\<open>JSON.stringify(obj)\<close>
  of the result, row results included, so it throws what that call throws.
\<close>

datatype import_data = NoData | MissingHeaders "string list" | RowResults "RowResult list"

record ImportResult =
  i_success :: bool
  i_code :: STATES
  i_message :: string
  i_rows :: nat
  i_data :: import_data

fun JSON_stringify_rows :: "RowResult list \<Rightarrow> js_error + unit" where
  "JSON_stringify_rows [] = Inr ()"
| "JSON_stringify_rows (obj # rest) =
     (case JSON_stringify obj of
        Inl ex \<Rightarrow> Inl ex
      | Inr traced \<Rightarrow> JSON_stringify_rows rest)"

definition JSON_stringify_result :: "ImportResult \<Rightarrow> js_error + unit" where
  "JSON_stringify_result obj =
     (case i_data obj of
        RowResults rs \<Rightarrow> JSON_stringify_rows rs
      | NoData \<Rightarrow> Inr ()
      | MissingHeaders missing \<Rightarrow> Inr ())"

definition createReturnValue ::
  "STATES \<Rightarrow> string \<Rightarrow> import_data \<Rightarrow> nat \<Rightarrow> js_error + ImportResult" where
  "createReturnValue code message data rows =
     (let obj = \<lparr> i_success = (code = STATE_SUCCESS), i_code = code, i_message = message,
                  i_rows = rows, i_data = data \<rparr>
      in case JSON_stringify_result obj of
           Inl ex \<Rightarrow> Inl ex
         | Inr traced \<Rightarrow> Inr obj)"

text \<open>
  The \<^verbatim>\<open>while (parser.next())\<close> loop of \<^verbatim>\<open>import\<close>: the row is parsed, the trace
  argument \<^verbatim>\<open>JSON.stringify(obj)\<close> is evaluated, outside the \<^verbatim>\<open>try\<close> of \<^verbatim>\<open>_parseRow\<close>,
  and the result is pushed. An error thrown there leaves the loop and \<^verbatim>\<open>import\<close>.
\<close>

fun import_rows ::
  "config \<Rightarrow> 's store_ops \<Rightarrow> 's world \<Rightarrow> int \<Rightarrow> RowResult list \<Rightarrow> row list
     \<Rightarrow> (js_error + RowResult list) \<times> 's world" where
  "import_rows cfg ops w index results [] = (Inr results, w)"
| "import_rows cfg ops w index results (raw # rest) =
     (case parseRow cfg ops w raw index of
        (obj, w') \<Rightarrow>
          (case JSON_stringify obj of
             Inl ex \<Rightarrow> (Inl ex, w')
           | Inr traced \<Rightarrow> import_rows cfg ops w' (index + 1) (results @ [obj]) rest))"

text \<open>
  \<^verbatim>\<open>import(attachment_sys_id)\<close>: the result it returns or the error it throws, the
  parser as it leaves it, and the world after the run.
\<close>

record 's import_run =
  run_result :: "js_error + ImportResult"
  run_parser :: parser
  run_world :: "'s world"

definition import :: "config \<Rightarrow> 's store_ops \<Rightarrow> 's world \<Rightarrow> xlsx_file \<Rightarrow> 's import_run" where
  "import cfg ops w file =
     (let parser = new_parser file;
          success = parse_success file
      in if \<not> success
         then \<lparr> run_result = createReturnValue PARSING_ERROR (error_message file) NoData 0,
                run_parser = parser, run_world = w \<rparr>
         else if \<not> sloppy cfg \<and> \<not> h_success (validateHeaders cfg (column_headers file))
         then \<lparr> run_result =
                  createReturnValue MISSING_REQUIRED_HEADER
                    ''One or more required headers are missing''
                    (MissingHeaders (h_missing (validateHeaders cfg (column_headers file)))) 0,
                run_parser = parser, run_world = w \<rparr>
         else
           (case import_rows cfg ops w 2 [] (file_rows file) of
              (Inl ex, w') \<Rightarrow> \<lparr> run_result = Inl ex, run_parser = parser, run_world = w' \<rparr>
            | (Inr results, w') \<Rightarrow>
                \<lparr> run_result =
                    createReturnValue STATE_SUCCESS ''Import completed successfully''
                      (RowResults results) (length results),
                  run_parser = parser_close parser, run_world = w' \<rparr>))"

section \<open>A store in memory\<close>

text \<open>
  Modelled from the spec: the record store collaborator (section 6 of the specification;
  the platform's \<^verbatim>\<open>GlideRecord\<close>, which is not part of the repository). A table is a list
  of records, each a \<^verbatim>\<open>sys_id\<close> with its fields. A query yields the records that satisfy
  every equality condition, so all of them when there is no condition; a create appends a
  record under a fresh identifier; an update writes the fields into the record with the
  given identifier. This store never throws. It is used at concrete inputs only.
\<close>

type_synonym table = "(string \<times> row) list"

definition table_query :: "table \<Rightarrow> (string \<times> jsval) list \<Rightarrow> js_error + string list" where
  "table_query t conds =
     Inr (map fst (filter (\<lambda>r. list_all (\<lambda>c. obj_get (snd r) (fst c) = snd c) conds) t))"

fun write_fields :: "row \<Rightarrow> row \<Rightarrow> row" where
  "write_fields r [] = r"
| "write_fields r ((field, v) # data) = write_fields (obj_set r field v) data"

definition fresh_id :: "table \<Rightarrow> string" where
  "fresh_id t = ''new'' @ replicate (length t) (CHR ''x'')"

definition table_create :: "table \<Rightarrow> row \<Rightarrow> (js_error + jsval) \<times> table" where
  "table_create t data = (Inr (JStr (fresh_id t)), t @ [(fresh_id t, write_fields [] data)])"

definition table_update :: "table \<Rightarrow> jsval \<Rightarrow> row \<Rightarrow> (js_error + jsval) \<times> table" where
  "table_update t sys_id data =
     (Inr sys_id,
      map (\<lambda>r. if JStr (fst r) = sys_id then (fst r, write_fields (snd r) data) else r) t)"

definition table_store :: "table store_ops" where
  "table_store = \<lparr> st_query = table_query, st_create = table_create, st_update = table_update \<rparr>"

definition fresh_world :: "table \<Rightarrow> table world" where
  "fresh_world t = \<lparr> store = t, calls = [] \<rparr>"


section \<open>The order of validation as the specification words it\<close>

text \<open>
  Section 4.6 of the specification: the fields of the mapped row in insertion order, for
  each its validators in registration order; the first validator that fails decides. The
  first definition lists the validators in that order, the second runs such a list.
  Both follow the specification's words and are compared with \<open>validateRowValues\<close> below.
\<close>

definition validation_order :: "config \<Rightarrow> row \<Rightarrow> (string \<times> validation) list" where
  "validation_order cfg row =
     concat (map (\<lambda>field. case validations cfg field of
                              None \<Rightarrow> []
                            | Some farray \<Rightarrow> map (Pair field) farray) (obj_keys row))"

fun ordered_validation ::
  "(string \<times> validation) list \<Rightarrow> row \<Rightarrow> js_error + validation_failure option" where
  "ordered_validation [] row = Inr None"
| "ordered_validation ((field, v) # rest) row =
     (case v_method v row field of
        Inl ex \<Rightarrow> Inl ex
      | Inr valid \<Rightarrow>
          if \<not> truthy valid then Inr (Some \<lparr> f_message = v_message v, f_field = field \<rparr>)
          else ordered_validation rest row)"

section \<open>Methods of the repository\<close>

text \<open>
  \<^verbatim>\<open>XLSXImporter_Methods_Repository.VALIDATIONS.IS_NOT_EMPTY\<close> and
  \<^verbatim>\<open>XLSXImporter_Methods_Repository.TRANSFORMS.STRING_TO_BOOLEAN\<close>. The transform calls
  \<^verbatim>\<open>value.trim()\<close>, which throws a \<^verbatim>\<open>TypeError\<close> for a value that is not a string.
\<close>

definition IS_NOT_EMPTY :: "row \<Rightarrow> string \<Rightarrow> js_error + jsval" where
  "IS_NOT_EMPTY row field = (let isEmpty = gs_nil (obj_get row field) in Inr (JBool (\<not> isEmpty)))"




section \<open>Concrete inputs\<close>

text \<open>
  Callbacks: one returns \<^verbatim>\<open>false\<close>, one returns \<^verbatim>\<open>0\<close>, and one reads a property of
  \<^verbatim>\<open>data.row\<close>, which throws when the data carries no row.
\<close>

definition return_false :: callback where
  "return_false d = Inr (JBool False)"

definition return_zero :: callback where
  "return_zero d = Inr (JNum 0)"


text \<open>Rows as the parser delivers them, rows after the mapping, and tables of the store.\<close>

definition row_ann :: row where
  "row_ann = [(''Name'', JStr ''Ann'')]"

definition row_ann_mapped :: row where
  "row_ann_mapped = [(''u_name'', JStr ''Ann'')]"


definition row_no_city :: row where
  "row_no_city = [(''Name'', JStr ''Ann''), (''City'', JStr [])]"

definition row_no_name :: row where
  "row_no_name = [(''Name'', JStr []), (''City'', JStr ''Rome'')]"

definition row_no_name_mapped :: row where
  "row_no_name_mapped = [(''u_name'', JStr []), (''u_city'', JStr ''Rome'')]"

definition row_ann_oslo :: row where
  "row_ann_oslo = [(''Name'', JStr ''Ann''), (''City'', JStr ''Oslo'')]"


definition table_bob :: table where
  "table_bob = [(''rec1'', [(''u_name'', JStr ''Bob''), (''u_city'', JStr ''Oslo'')])]"

text \<open>Configurations.\<close>

definition cfg_names :: config where
  "cfg_names = initial_config\<lparr> mappings := [''name'' \<mapsto> ''u_name'', ''city'' \<mapsto> ''u_city''] \<rparr>"

definition cfg_read_zero :: config where
  "cfg_read_zero = cfg_names\<lparr> events := [''onrowread'' \<mapsto> return_zero] \<rparr>"

definition cfg_veto_all :: config where
  "cfg_veto_all =
     cfg_names\<lparr> events := [''onrowread'' \<mapsto> return_false, ''onrowvalidating'' \<mapsto> return_false,
                           ''onrowvalidated'' \<mapsto> return_false,
                           ''onrowtransformed'' \<mapsto> return_false] \<rparr>"

definition cfg_imported_false :: config where
  "cfg_imported_false = cfg_names\<lparr> events := [''onrowimported'' \<mapsto> return_false] \<rparr>"

definition cfg_coalesce_name :: config where
  "cfg_coalesce_name = cfg_names\<lparr> coalescing := [''u_name''] \<rparr>"


definition name_required :: validation where
  "name_required = \<lparr> v_method = IS_NOT_EMPTY, v_message = ''Name is mandatory'' \<rparr>"

definition city_required :: validation where
  "city_required = \<lparr> v_method = IS_NOT_EMPTY, v_message = ''City is mandatory'' \<rparr>"

definition city_throws :: validation where
  "city_throws =
     \<lparr> v_method = (\<lambda>r field. Inl (Error ''this validation must not run'')),
       v_message = ''City is not known'' \<rparr>"

definition cfg_validated :: config where
  "cfg_validated =
     cfg_names\<lparr> validations := [''u_name'' \<mapsto> [name_required],
                                ''u_city'' \<mapsto> [city_required, city_throws]] \<rparr>"




definition cfg_require_id :: config where
  "cfg_require_id = cfg_names\<lparr> required := [''id''] \<rparr>"

definition row_no_city_mapped :: row where
  "row_no_city_mapped = [(''u_name'', JStr ''Ann''), (''u_city'', JStr [])]"









text \<open>Files.\<close>

definition file_unreadable :: xlsx_file where
  "file_unreadable =
     \<lparr> parse_success = False, error_message = ''Unable to parse the file'',
       column_headers = [], file_rows = [] \<rparr>"

definition file_names :: xlsx_file where
  "file_names =
     \<lparr> parse_success = True, error_message = [], column_headers = [''Name'', ''City''],
       file_rows = [row_no_name, row_ann_oslo] \<rparr>"


section \<open>Configuration conflicts\<close>

lemma normalize_user_id: "normalize '' User  ID'' = ''user id''"
  by code_simp

text \<open>
  C8. For every header \<open>h\<close>: \<open>ignore h\<close> while the normalized \<open>h\<close> is in the required
  list, and \<open>require h\<close> while the normalized \<open>h\<close> is in the ignored list, throw an error
  at that call and leave the configuration, hence both lists, as they were.
\<close>

theorem ignore_require_conflict_rejected:
  "(normalize h \<in> set (required cfg) \<longrightarrow>
      (\<exists>e. ignore cfg (JStr h) = (Some e, cfg))) \<and>
   (normalize h \<in> set (ignored cfg) \<longrightarrow>
      (\<exists>e. require cfg (JStr h) = (Some e, cfg)))"
  by (simp add: ignore_def require_def Let_def)

theorem ignore_require_conflict_rejected_witness:
  "normalize '' User  ID'' \<in> set (required (initial_config\<lparr> required := [''user id''] \<rparr>)) \<and>
   (\<exists>e. ignore (initial_config\<lparr> required := [''user id''] \<rparr>) (JStr '' User  ID'')
        = (Some e, initial_config\<lparr> required := [''user id''] \<rparr>)) \<and>
   normalize '' User  ID'' \<in> set (ignored (initial_config\<lparr> ignored := [''user id''] \<rparr>)) \<and>
   (\<exists>e. require (initial_config\<lparr> ignored := [''user id''] \<rparr>) (JStr '' User  ID'')
        = (Some e, initial_config\<lparr> ignored := [''user id''] \<rparr>))"
  using ignore_require_conflict_rejected
          [of "'' User  ID''" "initial_config\<lparr> required := [''user id''] \<rparr>"]
        ignore_require_conflict_rejected
          [of "'' User  ID''" "initial_config\<lparr> ignored := [''user id''] \<rparr>"]
  by (simp add: normalize_user_id)

section \<open>Normalized names and evaluation\<close>

lemma normalize_event_names:
  "normalize ''onRowRead'' = ''onrowread''"
  "normalize ''onRowValidating'' = ''onrowvalidating''"
  "normalize ''onRowValidated'' = ''onrowvalidated''"
  "normalize ''onRowTransformed'' = ''onrowtransformed''"
  "normalize ''onRowImported'' = ''onrowimported''"
  "normalize ''onCoalesce'' = ''oncoalesce''"
  by code_simp+

lemma normalize_headers:
  "normalize ''Name'' = ''name''" "normalize ''name'' = ''name''"
  "normalize ''City'' = ''city''" "normalize ''city'' = ''city''"
  "normalize ''Notes'' = ''notes''" "normalize ''notes'' = ''notes''"
  "normalize ''Active'' = ''active''" "normalize ''active'' = ''active''"
  by code_simp+


lemmas stage_defs = parseRow_try_def parseRow_map_def parseRow_validating_def
  parseRow_validate_def parseRow_validated_def parseRow_transform_def parseRow_import_def

lemmas row_defs = normalizeRowHeaders_def isEmptyRow_def ignoreRowHeaders_def
  mapHeadersToFields_def transformRowValues_def validateRowValues_def obj_keys_def obj_get_def
  createRowResult_def or_null_def triggerEvent_def normalize_event_names normalize_headers
  Let_def

lemmas store_defs = createUpdateRecord_def getCoalescenceRecord_def table_store_def
  table_query_def table_create_def table_update_def fresh_id_def fresh_world_def

section \<open>Facts about rows and results\<close>

lemma veto_iff: "(\<not> gs_nil v \<and> \<not> truthy v) = (v = JBool False \<or> v = JNum 0)"
  by (cases v) auto

lemma skip_result:
  "createRowResult index SKIPPED_EVENT (Some (e # es)) JUndefined None =
     \<lparr> r_row = index, r_code = SKIPPED_EVENT,
       r_message = Some (''Record skipped after result of event: '' @ e # es),
       r_target = JNull, r_error = None \<rparr>"
  by (simp add: createRowResult_def or_null_def)





lemma obj_keys_obj_set:
  "set (obj_keys (obj_set obj k v)) = insert k (set (obj_keys obj))"
  by (induction obj k v rule: obj_set.induct) (auto simp: obj_keys_def)


section \<open>Event results\<close>

text \<open>
  C4, as stated, fails: a callback of \<^verbatim>\<open>onRowRead\<close> that returns the number \<^verbatim>\<open>0\<close>, which
  is not the boolean \<^verbatim>\<open>false\<close>, has the row skipped with \<^verbatim>\<open>SKIPPED_EVENT\<close>.
\<close>

theorem event_return_zero_skips_row:
  "triggerEvent cfg_read_zero ''onRowRead'' (Some (normalizeRowHeaders row_ann)) (Some 2)
       JUndefined = Inr (JNum 0) \<and>
   JNum 0 \<noteq> JBool False \<and>
   fst (parseRow cfg_read_zero table_store (fresh_world []) row_ann 2) =
     \<lparr> r_row = 2, r_code = SKIPPED_EVENT,
       r_message = Some ''Record skipped after result of event: onRowRead'',
       r_target = JNull, r_error = None \<rparr>"
  by (simp add: parseRow_def parseRow_try_def cfg_read_zero_def row_defs initial_config_def cfg_names_def return_zero_def row_ann_def)

text \<open>
  C4, amended. For each of the events \<^verbatim>\<open>onRowRead\<close>, \<^verbatim>\<open>onRowValidating\<close>,
  \<^verbatim>\<open>onRowValidated\<close> and \<^verbatim>\<open>onRowTransformed\<close>: when the dispatch returns a value \<open>v\<close>,
  the row is skipped with \<^verbatim>\<open>SKIPPED_EVENT\<close>, tagged with the event's name, if \<open>v\<close> is
  \<^verbatim>\<open>false\<close> or \<^verbatim>\<open>0\<close> (falsy and not nil), and the row goes on to the next stage for
  every other \<open>v\<close>; with no callback registered the dispatch returns \<^verbatim>\<open>null\<close>, so the row
  goes on.
\<close>

theorem event_veto_or_continue:
  "(\<not> isEmptyRow (normalizeRowHeaders raw) \<and>
    triggerEvent cfg ''onRowRead'' (Some (normalizeRowHeaders raw)) (Some index) JUndefined = Inr v
    \<longrightarrow> parseRow_try cfg ops w raw index =
         (if v = JBool False \<or> v = JNum 0
          then (Inr \<lparr> r_row = index, r_code = SKIPPED_EVENT,
                     r_message = Some ''Record skipped after result of event: onRowRead'',
                     r_target = JNull, r_error = None \<rparr>, w)
          else parseRow_map cfg ops w (normalizeRowHeaders raw) index)) \<and>
   (triggerEvent cfg ''onRowValidating'' (Some row) (Some index) JUndefined = Inr v
    \<longrightarrow> parseRow_validating cfg ops w row index =
         (if v = JBool False \<or> v = JNum 0
          then (Inr \<lparr> r_row = index, r_code = SKIPPED_EVENT,
                     r_message = Some ''Record skipped after result of event: onRowValidating'',
                     r_target = JNull, r_error = None \<rparr>, w)
          else parseRow_validate cfg ops w row index)) \<and>
   (triggerEvent cfg ''onRowValidated'' (Some row) (Some index) JUndefined = Inr v
    \<longrightarrow> parseRow_validated cfg ops w row index =
         (if v = JBool False \<or> v = JNum 0
          then (Inr \<lparr> r_row = index, r_code = SKIPPED_EVENT,
                     r_message = Some ''Record skipped after result of event: onRowValidated'',
                     r_target = JNull, r_error = None \<rparr>, w)
          else parseRow_transform cfg ops w row index)) \<and>
   (transformRowValues cfg row = Inr row' \<and>
    triggerEvent cfg ''onRowTransformed'' (Some row') (Some index) JUndefined = Inr v
    \<longrightarrow> parseRow_transform cfg ops w row index =
         (if v = JBool False \<or> v = JNum 0
          then (Inr \<lparr> r_row = index, r_code = SKIPPED_EVENT,
                     r_message = Some ''Record skipped after result of event: onRowTransformed'',
                     r_target = JNull, r_error = None \<rparr>, w)
          else parseRow_import cfg ops w row' index)) \<and>
   (events cfg (normalize event) = None \<longrightarrow>
      triggerEvent cfg event data_row data_index sys_id = Inr JNull)"
  by (simp add: parseRow_try_def parseRow_validating_def parseRow_validated_def
        parseRow_transform_def veto_iff skip_result triggerEvent_def Let_def)

theorem event_veto_or_continue_witness:
  "\<not> isEmptyRow (normalizeRowHeaders row_ann) \<and>
   triggerEvent cfg_veto_all ''onRowRead'' (Some (normalizeRowHeaders row_ann)) (Some 2)
       JUndefined = Inr (JBool False) \<and>
   parseRow_try cfg_veto_all table_store (fresh_world []) row_ann 2 =
     (Inr \<lparr> r_row = 2, r_code = SKIPPED_EVENT,
            r_message = Some ''Record skipped after result of event: onRowRead'',
            r_target = JNull, r_error = None \<rparr>, fresh_world []) \<and>
   triggerEvent cfg_veto_all ''onRowValidating'' (Some row_ann_mapped) (Some 2) JUndefined
     = Inr (JBool False) \<and>
   parseRow_validating cfg_veto_all table_store (fresh_world []) row_ann_mapped 2 =
     (Inr \<lparr> r_row = 2, r_code = SKIPPED_EVENT,
            r_message = Some ''Record skipped after result of event: onRowValidating'',
            r_target = JNull, r_error = None \<rparr>, fresh_world []) \<and>
   triggerEvent cfg_veto_all ''onRowValidated'' (Some row_ann_mapped) (Some 2) JUndefined
     = Inr (JBool False) \<and>
   parseRow_validated cfg_veto_all table_store (fresh_world []) row_ann_mapped 2 =
     (Inr \<lparr> r_row = 2, r_code = SKIPPED_EVENT,
            r_message = Some ''Record skipped after result of event: onRowValidated'',
            r_target = JNull, r_error = None \<rparr>, fresh_world []) \<and>
   transformRowValues cfg_veto_all row_ann_mapped = Inr row_ann_mapped \<and>
   triggerEvent cfg_veto_all ''onRowTransformed'' (Some row_ann_mapped) (Some 2) JUndefined
     = Inr (JBool False) \<and>
   parseRow_transform cfg_veto_all table_store (fresh_world []) row_ann_mapped 2 =
     (Inr \<lparr> r_row = 2, r_code = SKIPPED_EVENT,
            r_message = Some ''Record skipped after result of event: onRowTransformed'',
            r_target = JNull, r_error = None \<rparr>, fresh_world []) \<and>
   events cfg_names (normalize ''onRowRead'') = None \<and>
   triggerEvent cfg_names ''onRowRead'' (Some (normalizeRowHeaders row_ann)) (Some 2)
       JUndefined = Inr JNull \<and>
   parseRow_try cfg_names table_store (fresh_world []) row_ann 2 =
     parseRow_map cfg_names table_store (fresh_world []) (normalizeRowHeaders row_ann) 2"
  using event_veto_or_continue
          [where raw = row_ann and cfg = cfg_veto_all and index = 2 and v = "JBool False"
             and ops = table_store and w = "fresh_world []" and row = row_ann_mapped
             and row' = row_ann_mapped and event = "''onRowImported''"
             and data_row = None and data_index = None and sys_id = JNull]
        event_veto_or_continue
          [where raw = row_ann and cfg = cfg_names and index = 2 and v = JNull
             and ops = table_store and w = "fresh_world []" and row = row_ann_mapped
             and row' = row_ann_mapped and event = "''onRowRead''"
             and data_row = "Some (normalizeRowHeaders row_ann)" and data_index = "Some 2"
             and sys_id = JUndefined]
  by (simp add: cfg_veto_all_def row_defs initial_config_def cfg_names_def return_false_def row_ann_def row_ann_mapped_def)

section \<open>The result of onRowImported\<close>

lemma getCoalescenceRecord_calls:
  "getCoalescenceRecord cfg ops w data = (res, w') \<Longrightarrow>
     store w' = store w \<and> (\<exists>pre. calls w' = calls w @ pre \<and> list_all (\<lambda>c. \<not> is_write c) pre)"
  by (auto simp: getCoalescenceRecord_def Let_def split: if_splits sum.splits)

lemma createUpdateRecord_writes:
  assumes "createUpdateRecord cfg ops w data = (Inr sys_id, w')"
  shows "\<exists>pre c. calls w' = calls w @ pre @ [c] \<and> is_write c"
proof -
  obtain res w1 where g: "getCoalescenceRecord cfg ops w data = (res, w1)"
    by (cases "getCoalescenceRecord cfg ops w data")
  from getCoalescenceRecord_calls [OF g] obtain pre where
    pre: "calls w1 = calls w @ pre" by blast
  from assms g pre show ?thesis
    by (auto simp: createUpdateRecord_def split: sum.splits if_splits prod.splits)
qed

text \<open>
  C1. The documentation of the callback says that the result of \<^verbatim>\<open>onRowImported\<close> is
  ignored. The code at a row whose callback returns \<^verbatim>\<open>false\<close>: the record is created in
  the store, and the row's result is \<^verbatim>\<open>SKIPPED_EVENT\<close> with a null target, not
  \<^verbatim>\<open>SUCCESS\<close> with the identifier of the record.
\<close>

theorem onRowImported_false_reports_skipped_event:
  "parseRow cfg_imported_false table_store (fresh_world []) row_ann 2 =
     (\<lparr> r_row = 2, r_code = SKIPPED_EVENT,
        r_message = Some ''Record skipped after result of event: onRowImported'',
        r_target = JNull, r_error = None \<rparr>,
      \<lparr> store = [(''new'', [(''u_name'', JStr ''Ann'')])],
        calls = [Create [(''u_name'', JStr ''Ann'')]] \<rparr>)"
  by (simp add: parseRow_def stage_defs row_defs store_defs cfg_imported_false_def initial_config_def cfg_names_def return_false_def row_ann_def)

text \<open>
  C9. Not in virtual mode, for a row that reaches the persistence stage: when
  \<^verbatim>\<open>_createUpdateRecord\<close> has returned the identifier of the record it wrote and the
  \<^verbatim>\<open>onRowImported\<close> callback, called with that identifier, returns \<^verbatim>\<open>false\<close>, the row's
  result is \<^verbatim>\<open>SKIPPED_EVENT\<close> for \<^verbatim>\<open>onRowImported\<close> with target null, and the world the
  row leaves has a create or update as the last call made on the store for this row.
\<close>

theorem onRowImported_false_after_write:
  assumes "\<not> virtual cfg"
    and "parseRow_try cfg ops w raw index = parseRow_import cfg ops w row index"
    and "createUpdateRecord cfg ops w row = (Inr sys_id, w')"
    and "triggerEvent cfg ''onRowImported'' (Some row) (Some index) sys_id = Inr (JBool False)"
  shows "parseRow cfg ops w raw index =
           (\<lparr> r_row = index, r_code = SKIPPED_EVENT,
              r_message = Some ''Record skipped after result of event: onRowImported'',
              r_target = JNull, r_error = None \<rparr>, w') \<and>
         (\<exists>pre c. calls w' = calls w @ pre @ [c] \<and> is_write c)"
  using assms createUpdateRecord_writes [OF assms(3)]
  by (simp add: parseRow_def parseRow_import_def skip_result)

theorem onRowImported_false_after_write_witness:
  "\<not> virtual cfg_imported_false \<and>
   parseRow_try cfg_imported_false table_store (fresh_world []) row_ann 2 =
     parseRow_import cfg_imported_false table_store (fresh_world []) row_ann_mapped 2 \<and>
   createUpdateRecord cfg_imported_false table_store (fresh_world []) row_ann_mapped =
     (Inr (JStr ''new''),
      \<lparr> store = [(''new'', row_ann_mapped)], calls = [Create row_ann_mapped] \<rparr>) \<and>
   triggerEvent cfg_imported_false ''onRowImported'' (Some row_ann_mapped) (Some 2) (JStr ''new'')
     = Inr (JBool False) \<and>
   parseRow cfg_imported_false table_store (fresh_world []) row_ann 2 =
     (\<lparr> r_row = 2, r_code = SKIPPED_EVENT,
        r_message = Some ''Record skipped after result of event: onRowImported'',
        r_target = JNull, r_error = None \<rparr>,
      \<lparr> store = [(''new'', row_ann_mapped)], calls = [Create row_ann_mapped] \<rparr>) \<and>
   (\<exists>pre c. [Create row_ann_mapped] = calls (fresh_world []) @ pre @ [c] \<and> is_write c)"
proof -
  have h1: "\<not> virtual cfg_imported_false"
    by (simp add: cfg_imported_false_def initial_config_def cfg_names_def return_false_def row_ann_def row_ann_mapped_def)
  have h2: "parseRow_try cfg_imported_false table_store (fresh_world []) row_ann 2 =
     parseRow_import cfg_imported_false table_store (fresh_world []) row_ann_mapped 2"
    by (simp add: parseRow_try_def parseRow_map_def parseRow_validating_def
          parseRow_validate_def parseRow_validated_def parseRow_transform_def row_defs
          cfg_imported_false_def initial_config_def cfg_names_def return_false_def row_ann_def row_ann_mapped_def)
  have h3: "createUpdateRecord cfg_imported_false table_store (fresh_world []) row_ann_mapped =
     (Inr (JStr ''new''),
      \<lparr> store = [(''new'', row_ann_mapped)], calls = [Create row_ann_mapped] \<rparr>)"
    by (simp add: store_defs cfg_imported_false_def initial_config_def cfg_names_def return_false_def row_ann_def row_ann_mapped_def)
  have h4: "triggerEvent cfg_imported_false ''onRowImported'' (Some row_ann_mapped) (Some 2)
      (JStr ''new'') = Inr (JBool False)"
    by (simp add: row_defs cfg_imported_false_def initial_config_def cfg_names_def return_false_def row_ann_def row_ann_mapped_def)
  from onRowImported_false_after_write [OF h1 h2 h3 h4] h1 h2 h3 h4 show ?thesis
    by simp
qed

section \<open>The empty-row check comes before the ignored headers\<close>












section \<open>Validation stops at the first failure\<close>

lemma ordered_validation_field:
  "ordered_validation (map (Pair field) farray @ rest) row =
     (case run_validations farray row field of
        Inl ex \<Rightarrow> Inl ex
      | Inr (Some obj) \<Rightarrow> Inr (Some obj)
      | Inr None \<Rightarrow> ordered_validation rest row)"
  by (induction farray) (auto split: sum.splits)

text \<open>The nested loops of the code run the validators in the specification's order.\<close>

lemma validateRowValues_ordered:
  "validateRowValues cfg row = ordered_validation (validation_order cfg row) row"
proof -
  have "validateRowValues_loop cfg row keys =
     ordered_validation
       (concat (map (\<lambda>field. case validations cfg field of
                                None \<Rightarrow> []
                              | Some farray \<Rightarrow> map (Pair field) farray) keys)) row" for keys
    by (induction keys) (auto simp: ordered_validation_field split: option.splits sum.splits)
  then show ?thesis
    by (simp add: validateRowValues_def validation_order_def)
qed

lemma ordered_validation_first_failure:
  assumes "list_all (\<lambda>p. \<exists>x. v_method (snd p) row (fst p) = Inr x \<and> truthy x) pre"
    and "v_method v row field = Inr x" and "\<not> truthy x"
  shows "ordered_validation (pre @ (field, v) # post) row =
           Inr (Some \<lparr> f_message = v_message v, f_field = field \<rparr>)"
  using assms by (induction pre) auto

lemma mapHeadersToFields_loop_keys:
  "[] \<notin> set (obj_keys data) \<Longrightarrow> [] \<notin> set (obj_keys (mapHeadersToFields_loop cfg row hs data))"
  by (induction hs arbitrary: data) (auto simp: obj_keys_obj_set split: option.splits)

lemma mapHeadersToFields_keys: "[] \<notin> set (obj_keys (mapHeadersToFields cfg row))"
  using mapHeadersToFields_loop_keys [of "[]" cfg row "obj_keys row"]
  by (simp add: mapHeadersToFields_def obj_keys_def)

lemma validation_order_fields:
  "(field, v) \<in> set (validation_order cfg row) \<Longrightarrow> field \<in> set (obj_keys row)"
  by (auto simp: validation_order_def split: option.splits)

text \<open>
  C7. Sloppy mode off, \<open>row\<close> the mapped row, \<^verbatim>\<open>onRowValidating\<close> not vetoing: list the
  validators field by field in the row's insertion order, each field's in registration
  order. If every validator before \<open>v\<close> in that list returns a truthy value and \<open>v\<close>, a
  validator of \<open>field\<close>, returns \<^verbatim>\<open>false\<close>, then the validation returns the message of
  \<open>v\<close> with \<open>field\<close>, and the row's result is \<^verbatim>\<open>SKIPPED_VALIDATION\<close> with that message
  and \<open>field\<close> as target. The validators after \<open>v\<close> are arbitrary (they may throw): none
  of them runs.
\<close>

theorem first_failed_validation_decides:
  assumes "\<not> sloppy cfg"
    and "row = mapHeadersToFields cfg (ignoreRowHeaders cfg r)"
    and "triggerEvent cfg ''onRowValidating'' (Some row) (Some index) JUndefined = Inr go"
    and "gs_nil go \<or> truthy go"
    and "validation_order cfg row = pre @ (field, v) # post"
    and "list_all (\<lambda>p. \<exists>x. v_method (snd p) row (fst p) = Inr x \<and> truthy x) pre"
    and "v_method v row field = Inr (JBool False)"
  shows "validateRowValues cfg row = Inr (Some \<lparr> f_message = v_message v, f_field = field \<rparr>) \<and>
         parseRow_map cfg ops w r index =
           (Inr \<lparr> r_row = index, r_code = SKIPPED_VALIDATION, r_message = Some (v_message v),
                  r_target = JStr field, r_error = None \<rparr>, w)"
proof -
  have v: "validateRowValues cfg row = Inr (Some \<lparr> f_message = v_message v, f_field = field \<rparr>)"
    using ordered_validation_first_failure [OF assms(6,7), of post] assms(5)
    by (simp add: validateRowValues_ordered)
  have "field \<in> set (obj_keys row)"
    using assms(5) validation_order_fields [of field v cfg row] by simp
  with assms(2) have ne: "field \<noteq> []"
    using mapHeadersToFields_keys [of cfg "ignoreRowHeaders cfg r"] by auto
  from assms(1-4) v ne show ?thesis
    by (auto simp: parseRow_map_def parseRow_validating_def parseRow_validate_def
          createRowResult_def or_null_def Let_def)
qed

theorem first_failed_validation_decides_witness:
  "\<not> sloppy cfg_validated \<and>
   row_no_city_mapped =
     mapHeadersToFields cfg_validated
       (ignoreRowHeaders cfg_validated (normalizeRowHeaders row_no_city)) \<and>
   triggerEvent cfg_validated ''onRowValidating'' (Some row_no_city_mapped) (Some 5) JUndefined
     = Inr JNull \<and>
   (gs_nil JNull \<or> truthy JNull) \<and>
   validation_order cfg_validated row_no_city_mapped =
     [(''u_name'', name_required)] @ (''u_city'', city_required) # [(''u_city'', city_throws)] \<and>
   list_all (\<lambda>p. \<exists>x. v_method (snd p) row_no_city_mapped (fst p) = Inr x \<and> truthy x)
     [(''u_name'', name_required)] \<and>
   v_method city_required row_no_city_mapped ''u_city'' = Inr (JBool False) \<and>
   v_method city_throws row_no_city_mapped ''u_city'' = Inl (Error ''this validation must not run'') \<and>
   validateRowValues cfg_validated row_no_city_mapped =
     Inr (Some \<lparr> f_message = ''City is mandatory'', f_field = ''u_city'' \<rparr>) \<and>
   parseRow_map cfg_validated table_store (fresh_world []) (normalizeRowHeaders row_no_city) 5 =
     (Inr \<lparr> r_row = 5, r_code = SKIPPED_VALIDATION, r_message = Some ''City is mandatory'',
            r_target = JStr ''u_city'', r_error = None \<rparr>, fresh_world [])"
proof -
  have h1: "\<not> sloppy cfg_validated"
    by (simp add: cfg_validated_def initial_config_def cfg_names_def row_no_city_def)
  have h2: "row_no_city_mapped =
     mapHeadersToFields cfg_validated
       (ignoreRowHeaders cfg_validated (normalizeRowHeaders row_no_city))"
    by (simp add: row_defs cfg_validated_def initial_config_def cfg_names_def row_no_city_def row_no_city_mapped_def)
  have h3: "triggerEvent cfg_validated ''onRowValidating'' (Some row_no_city_mapped) (Some 5)
      JUndefined = Inr JNull"
    by (simp add: row_defs cfg_validated_def initial_config_def cfg_names_def row_no_city_def)
  have h4: "gs_nil JNull \<or> truthy JNull"
    by simp
  have h5: "validation_order cfg_validated row_no_city_mapped =
     [(''u_name'', name_required)] @ (''u_city'', city_required) # [(''u_city'', city_throws)]"
    by (simp add: validation_order_def obj_keys_def cfg_validated_def initial_config_def cfg_names_def row_no_city_def
          row_no_city_mapped_def)
  have h6: "list_all (\<lambda>p. \<exists>x. v_method (snd p) row_no_city_mapped (fst p) = Inr x \<and> truthy x)
     [(''u_name'', name_required)]"
    by (simp add: name_required_def IS_NOT_EMPTY_def obj_get_def row_no_city_mapped_def)
  have h7: "v_method city_required row_no_city_mapped ''u_city'' = Inr (JBool False)"
    by (simp add: city_required_def IS_NOT_EMPTY_def obj_get_def row_no_city_mapped_def)
  have h8: "v_method city_throws row_no_city_mapped ''u_city'' =
      Inl (Error ''this validation must not run'')"
    by (simp add: city_throws_def)
  from first_failed_validation_decides
         [OF h1 h2 h3 h4 h5 h6 h7, of table_store "fresh_world []"] h1 h2 h3 h4 h5 h6 h7 h8
  show ?thesis by (simp add: city_required_def)
qed

section \<open>A failing row is recorded and the run continues\<close>






text \<open>
  Whatever a callback, a validator, a transform or the store throws, the stage that called
  it ends with that error, so the error reaches the \<^verbatim>\<open>catch\<close> of \<^verbatim>\<open>_parseRow\<close>.
\<close>

lemma thrown_errors_reach_the_catch:
  "\<not> isEmptyRow (normalizeRowHeaders raw) \<Longrightarrow>
     triggerEvent cfg ''onRowRead'' (Some (normalizeRowHeaders raw)) (Some index) JUndefined = Inl ex
     \<Longrightarrow> parseRow_try cfg ops w raw index = (Inl ex, w)"
  "triggerEvent cfg ''onRowValidating'' (Some row) (Some index) JUndefined = Inl ex
     \<Longrightarrow> parseRow_validating cfg ops w row index = (Inl ex, w)"
  "validateRowValues cfg row = Inl ex \<Longrightarrow> parseRow_validate cfg ops w row index = (Inl ex, w)"
  "triggerEvent cfg ''onRowValidated'' (Some row) (Some index) JUndefined = Inl ex
     \<Longrightarrow> parseRow_validated cfg ops w row index = (Inl ex, w)"
  "transformRowValues cfg row = Inl ex \<Longrightarrow> parseRow_transform cfg ops w row index = (Inl ex, w)"
  "transformRowValues cfg row = Inr row' \<Longrightarrow>
     triggerEvent cfg ''onRowTransformed'' (Some row') (Some index) JUndefined = Inl ex
     \<Longrightarrow> parseRow_transform cfg ops w row index = (Inl ex, w)"
  "\<not> virtual cfg \<Longrightarrow> createUpdateRecord cfg ops w row = (Inl ex, w')
     \<Longrightarrow> parseRow_import cfg ops w row index = (Inl ex, w')"
  "\<not> virtual cfg \<Longrightarrow> createUpdateRecord cfg ops w row = (Inr sys_id, w') \<Longrightarrow>
     triggerEvent cfg ''onRowImported'' (Some row) (Some index) sys_id = Inl ex
     \<Longrightarrow> parseRow_import cfg ops w row index = (Inl ex, w')"
  by (simp_all add: stage_defs Let_def)

lemma run_validations_throws:
  "list_all (\<lambda>u. \<exists>x. v_method u row field = Inr x \<and> truthy x) passed \<Longrightarrow>
     v_method v row field = Inl ex \<Longrightarrow>
     run_validations (passed @ v # farray) row field = Inl ex"
  by (induction passed) auto

lemma apply_transforms_throws:
  "apply_transforms done_before x = Inr y \<Longrightarrow> f y = Inl ex \<Longrightarrow>
     apply_transforms (done_before @ f # fs) x = Inl ex"
  by (induction done_before arbitrary: x) (auto split: sum.splits)




section \<open>Virtual and non-virtual runs\<close>




























section \<open>Coalescence without values\<close>

lemma coalescence_conditions_all_nil:
  "list_all (\<lambda>field. gs_nil (obj_get data field)) coalescing_fields \<Longrightarrow>
     coalescence_conditions coalescing_fields data = []"
  by (induction coalescing_fields) auto

text \<open>
  When every coalescing field is nil in the row, the query is made with no condition, and
  the first record that \<^verbatim>\<open>onCoalesce\<close> accepts among all it finds is returned.
\<close>

lemma getCoalescenceRecord_all_nil:
  assumes "coalescing cfg \<noteq> []"
    and "list_all (\<lambda>field. gs_nil (obj_get data field)) (coalescing cfg)"
    and "st_query ops (store w) [] = Inr found"
  shows "getCoalescenceRecord cfg ops w data =
           (first_accepted cfg found, w\<lparr> calls := calls w @ [Query []] \<rparr>)"
  using assms by (simp add: getCoalescenceRecord_def coalescence_conditions_all_nil)

text \<open>
  C5. The documentation says that a row updates a record when its coalescing fields
  equal that record's, and that otherwise a record is created. The code at a row with an
  empty value in the one coalescing field, the table holding Bob's record: the resolver
  queries with no condition and returns Bob's \<^verbatim>\<open>sys_id\<close>, not null, and
  \<^verbatim>\<open>_createUpdateRecord\<close> overwrites Bob's record with the row instead of creating one.
\<close>

theorem coalescence_without_values_takes_first_record:
  "coalescing cfg_coalesce_name = [''u_name''] \<and>
   gs_nil (obj_get row_no_name_mapped ''u_name'') \<and>
   getCoalescenceRecord cfg_coalesce_name table_store (fresh_world table_bob) row_no_name_mapped =
     (Inr (JStr ''rec1''), \<lparr> store = table_bob, calls = [Query []] \<rparr>) \<and>
   createUpdateRecord cfg_coalesce_name table_store (fresh_world table_bob) row_no_name_mapped =
     (Inr (JStr ''rec1''),
      \<lparr> store = [(''rec1'', [(''u_name'', JStr []), (''u_city'', JStr ''Rome'')])],
        calls = [Query [], Update (JStr ''rec1'') row_no_name_mapped] \<rparr>)"
  by (simp add: store_defs first_accepted.simps triggerEvent_def normalize_event_names
        obj_get_def cfg_coalesce_name_def initial_config_def cfg_names_def row_no_name_mapped_def table_bob_def)

section \<open>Closing the parser\<close>

text \<open>
  C2. The code closes the parser at the end of a completed run only. At a file that does
  not parse, and at a file that lacks a required header, \<^verbatim>\<open>import\<close> returns early and
  leaves the parser open; at a file it processes, the parser is closed.
\<close>

theorem early_return_leaves_parser_open:
  "map_sum id i_code (run_result (import cfg_names table_store (fresh_world []) file_unreadable))
     = Inr PARSING_ERROR \<and>
   \<not> p_closed (run_parser (import cfg_names table_store (fresh_world []) file_unreadable)) \<and>
   map_sum id i_code (run_result (import cfg_require_id table_store (fresh_world []) file_names))
     = Inr MISSING_REQUIRED_HEADER \<and>
   map_sum id i_data (run_result (import cfg_require_id table_store (fresh_world []) file_names))
     = Inr (MissingHeaders [''id'']) \<and>
   \<not> p_closed (run_parser (import cfg_require_id table_store (fresh_world []) file_names)) \<and>
   map_sum id i_code (run_result (import cfg_names table_store (fresh_world []) file_names))
     = Inr STATE_SUCCESS \<and>
   p_closed (run_parser (import cfg_names table_store (fresh_world []) file_names))"
  by (simp add: import_def validateHeaders_def createReturnValue_def JSON_stringify_result_def
        JSON_stringify_def new_parser_def parser_close_def parseRow_def stage_defs row_defs
        store_defs cfg_require_id_def file_unreadable_def file_names_def initial_config_def
        cfg_names_def row_no_name_def row_ann_oslo_def)

end
